theory Spec2Isabelle
  imports Complex_Main "HOL-Library.FSet"
begin

section \<open>JavaScript values the program computes with\<close>

text \<open>
  A JavaScript string is a sequence of UTF-16 code units. The names of photos and files
  are modelled so (\<open>js_string\<close>, a code unit being a number below 65536), because the
  program matches them against the class \<open>\s\<close> and lowers their letters. The other strings
  (URLs, ids, messages, filter strings) are only concatenated, cut at an ASCII separator
  and compared; they are lists of characters. \<open>units\<close> reads a string of ASCII characters
  as code units. \<open>undefined\<close> is the value \<open>None\<close> of an option type.
\<close>

subsection \<open>Strings\<close>

type_synonym code_unit = nat

type_synonym js_string = "code_unit list"

definition units :: "string \<Rightarrow> js_string" where
  "units s = map of_char s"

text \<open>\<open>String.prototype.split\<close> with a one-character separator.\<close>

fun js_split :: "'a \<Rightarrow> 'a list \<Rightarrow> 'a list list" where
  "js_split sep [] = [[]]"
| "js_split sep (c # cs) =
     (if c = sep then [] # js_split sep cs
      else (case js_split sep cs of
              w # ws \<Rightarrow> (c # w) # ws
            | [] \<Rightarrow> [[c]]))"

text \<open>Reading an array by index: out of range gives \<open>undefined\<close>.\<close>

definition js_index :: "'a list \<Rightarrow> nat \<Rightarrow> 'a option" where
  "js_index xs i = (if i < length xs then Some (xs ! i) else None)"

text \<open>\<open>String.prototype.slice(a, b)\<close> for \<open>0 \<le> a \<le> b\<close>.\<close>

definition js_slice :: "nat \<Rightarrow> nat \<Rightarrow> string \<Rightarrow> string" where
  "js_slice a b s = take (b - a) (drop a s)"

text \<open>A string (possibly \<open>undefined\<close>) inside a template literal.\<close>

definition template_string :: "string option \<Rightarrow> string" where
  "template_string v = (case v of None \<Rightarrow> ''undefined'' | Some s \<Rightarrow> s)"

text \<open>Truthiness of a string that may be \<open>null\<close> or \<open>undefined\<close>.\<close>

definition truthy :: "'a list option \<Rightarrow> bool" where
  "truthy v = (case v of None \<Rightarrow> False | Some s \<Rightarrow> s \<noteq> [])"

text \<open>
  The regular expression class \<open>\s\<close>: the white space and line terminator code points of
  ECMAScript, which are tab, LF, VT, FF and CR (9 to 13), the space (32), the no-break
  space (U+00A0), U+1680, U+2000 to U+200A, U+2028, U+2029, U+202F, U+205F, U+3000 and
  U+FEFF. All of them are single code units.
\<close>

definition isSpace :: "code_unit \<Rightarrow> bool" where
  "isSpace u \<longleftrightarrow>
     (9 \<le> u \<and> u \<le> 13) \<or> u = 32 \<or> u = 160 \<or> u = 5760 \<or> (8192 \<le> u \<and> u \<le> 8202) \<or>
     u = 8232 \<or> u = 8233 \<or> u = 8239 \<or> u = 8287 \<or> u = 12288 \<or> u = 65279"

definition hyphen :: code_unit where
  "hyphen = 45"

text \<open>
  \<open>s.replace(/\s+/g, '-')\<close>: scanning from the left, every maximal run of whitespace is
  replaced by one hyphen and every other code unit is copied.
\<close>

function replace_whitespace :: "js_string \<Rightarrow> js_string" where
  "replace_whitespace [] = []"
| "replace_whitespace (c # cs) =
     (if isSpace c then hyphen # replace_whitespace (dropWhile isSpace cs)
      else c # replace_whitespace cs)"
  by pat_completeness auto
termination
  by (relation "measure length") (auto simp: length_dropWhile_le less_Suc_eq_le)

text \<open>
  \<open>String.prototype.toLowerCase\<close>. On a string whose code units are all below 256 (Basic
  Latin and Latin-1) it works unit by unit: the capital letters are A to Z (65 to 90) and
  U+00C0 to U+00DE without the multiplication sign U+00D7, and each moves up by 32; every
  other unit stays. On any other string it is the case conversion of the Unicode tables,
  which the program does not contain: there it is the parameter \<open>table\<close>.
\<close>

definition isUpper :: "code_unit \<Rightarrow> bool" where
  "isUpper u \<longleftrightarrow> (65 \<le> u \<and> u \<le> 90) \<or> (192 \<le> u \<and> u \<le> 222 \<and> u \<noteq> 215)"

definition toLowerUnit :: "code_unit \<Rightarrow> code_unit" where
  "toLowerUnit u = (if isUpper u then u + 32 else u)"

definition latin1 :: "js_string \<Rightarrow> bool" where
  "latin1 s = list_all (\<lambda>u. u < 256) s"

definition toLowerCase :: "(js_string \<Rightarrow> js_string) \<Rightarrow> js_string \<Rightarrow> js_string" where
  "toLowerCase table s = (if latin1 s then map toLowerUnit s else table s)"

subsection \<open>Numbers printed in decimal\<close>

definition digit :: "nat \<Rightarrow> char" where
  "digit d = ''0123456789'' ! d"

function toString_nat :: "nat \<Rightarrow> string" where
  "toString_nat n = (if n < 10 then [digit n] else toString_nat (n div 10) @ [digit (n mod 10)])"
  by pat_completeness auto
termination
  by (relation "measure id") auto

text \<open>\<open>Number.prototype.toString\<close> on an integer-valued number.\<close>

definition toString_int :: "int \<Rightarrow> string" where
  "toString_int i = (if i < 0 then CHR ''-'' # toString_nat (nat (- i)) else toString_nat (nat i))"

text \<open>
  A number inside a template literal, for integer-valued numbers; a property that the
  object does not have reads as \<open>undefined\<close>.
\<close>

definition template_int :: "int option \<Rightarrow> string" where
  "template_int v = (case v of None \<Rightarrow> ''undefined'' | Some i \<Rightarrow> toString_int i)"

subsection \<open>Objects\<close>

text \<open>
  An object is a finite map from property names to values. The type \<open>'n\<close> stands for the
  values of the numeric properties: the program never computes with them, it copies them
  and prints them. Object spread \<open>{...a, ...b}\<close> copies the properties of \<open>a\<close> and then
  those of \<open>b\<close>, so that \<open>b\<close> wins where both have a property.
\<close>

type_synonym 'n obj = "string \<rightharpoonup> 'n"

definition spread :: "'n obj \<Rightarrow> 'n obj \<Rightarrow> 'n obj" where
  "spread a b = a ++ b"

text \<open>
  A template literal is a sequence of literal pieces and substituted values; each value is
  converted by \<open>ToString\<close>, which is a parameter (\<open>str\<close>) wherever a numeric property is
  printed.
\<close>

datatype 'n piece = Lit string | Sub "'n option"

fun template :: "('n option \<Rightarrow> string) \<Rightarrow> 'n piece list \<Rightarrow> string" where
  "template str [] = []"
| "template str (Lit s # ps) = s @ template str ps"
| "template str (Sub v # ps) = str v @ template str ps"

section \<open>The data model (types.ts)\<close>

text \<open>
  A \<open>FilterSettings\<close> value is an object with the properties brightness, contrast,
  saturation, sepia, grayscale, hueRotate, blur and warmth. Objects live in a store and
  are held by reference, as in the program: two places can hold the same object. The
  field \<open>id\<close> of a \<open>PhotoItem\<close> is called \<open>id_item\<close>, since \<open>id\<close> is the identity function of
  HOL; the optional \<open>previewUrl\<close> is never set by the program.
\<close>

type_synonym 'n FilterSettings = "'n obj"

type_synonym ref = nat

record PhotoItem =
  id_item :: string
  originalUrl :: string
  name :: js_string
  timestamp :: int
  settings :: ref
  previewUrl :: "string option"

datatype ViewMode = HOME | COLLECTION | IMPORT | EXPORT

record 'n AnalysisResult =
  reasoning :: string
  suggestedSettings :: "'n FilterSettings"

definition defaultSettings :: "'n::{zero,numeral} FilterSettings" where
  "defaultSettings =
     [''brightness'' \<mapsto> 100, ''contrast'' \<mapsto> 100, ''saturation'' \<mapsto> 100, ''sepia'' \<mapsto> 0,
      ''grayscale'' \<mapsto> 0, ''hueRotate'' \<mapsto> 0, ''blur'' \<mapsto> 0, ''warmth'' \<mapsto> 0]"

section \<open>The browser and the network, as far as the program uses them\<close>

text \<open>
  A request to the hosted model holds the model name and the parts. The text part is kept
  as the user instruction that the prompt interpolates and whether the sentence about the
  reference image was appended; the fixed wording of the prompt is not spelled out.
\<close>

datatype part = InlineData string "string option" | Text string bool

record request =
  model :: string
  parts :: "part list"

text \<open>The request either fails or resolves with a response whose text may be absent.\<close>

datatype gen_result = Rejected | Response "string option"

text \<open>Loading an image fires \<open>onload\<close> (with the image's width and height) or \<open>onerror\<close>.\<close>

datatype image_event = OnLoad nat nat | OnError

text \<open>
  What the program does to the outside: requests sent, lines logged with \<open>console.error\<close>,
  alerts shown, downloads triggered (file name, source image, canvas width and height,
  the filter of the drawing context) and timed pauses, in the order they happen. Of a
  call of \<open>console.error\<close> the message is kept, not the further arguments.
\<close>

datatype effect =
    GenerateContent request
  | ConsoleError string
  | Alert string
  | Download js_string string nat nat string
  | Delay nat

datatype error = RequestFailed | SyntaxError | NoResponseText | ReadFailed | TypeError

text \<open>
  The environment of a run: the hosted model, \<open>JSON.parse\<close> read at the type
  \<open>AnalysisResult\<close> as the program casts it (\<open>None\<close> when it throws), \<open>ToString\<close> on the
  values of numeric properties, the outcome of loading an image URL, whether a canvas
  hands out a 2d context for an item, and \<open>toLowerCase\<close> on the strings that have a code
  unit outside Latin-1.
\<close>

record 'n Env =
  generateContent :: "request \<Rightarrow> gen_result"
  JSON_parse :: "string \<Rightarrow> 'n AnalysisResult option"
  ToString :: "'n option \<Rightarrow> string"
  image_load :: "string \<Rightarrow> image_event"
  getContext :: "PhotoItem \<Rightarrow> bool"
  unicode_toLowerCase :: "js_string \<Rightarrow> js_string"

text \<open>A file handed over by the file picker; \<open>reader_result\<close> is what \<open>FileReader\<close>
  produces for it: a data URL, or \<open>None\<close> when reading fails.\<close>

record File =
  file_name :: js_string
  file_type :: string
  reader_result :: "string option"

text \<open>The readings of \<open>Date.now()\<close> and \<open>Math.random().toString()\<close> made while one item is built.\<close>

record readings =
  now_id :: int
  random :: string
  now_timestamp :: int

section \<open>The application state (App.tsx)\<close>

text \<open>
  The state of the \<open>App\<close> component, the store of settings objects with its allocation
  pointer, and the effects so far. The constant \<open>defaultSettings\<close> is one object, at
  reference 0.
\<close>

record 'n App =
  view :: ViewMode
  isSidebarOpen :: bool
  isSidebarCollapsed :: bool
  currentImage :: "string option"
  currentSettings :: ref
  isProcessing :: bool
  aiReasoning :: string
  showCompare :: bool
  promptText :: string
  refImage :: "string option"
  collection :: "PhotoItem list"
  exportSelection :: "string fset"
  store :: "ref \<Rightarrow> 'n FilterSettings"
  fresh :: ref
  effects :: "effect list"

definition defaultSettings_ref :: ref where
  "defaultSettings_ref = 0"

definition initial :: "'n::{zero,numeral} App" where
  "initial =
     \<lparr>view = HOME, isSidebarOpen = False, isSidebarCollapsed = False, currentImage = None,
      currentSettings = defaultSettings_ref, isProcessing = False, aiReasoning = [],
      showCompare = False, promptText = [], refImage = None, collection = [],
      exportSelection = {||}, store = (\<lambda>_. Map.empty)(defaultSettings_ref := defaultSettings),
      fresh = 1, effects = []\<rparr>"

text \<open>Building a new object: it is stored at the next free reference.\<close>

definition new_object :: "'n FilterSettings \<Rightarrow> 'n App \<Rightarrow> ref \<times> 'n App" where
  "new_object v st = (fresh st, st\<lparr>store := (store st)(fresh st := v), fresh := Suc (fresh st)\<rparr>)"

definition perform :: "effect list \<Rightarrow> 'n App \<Rightarrow> 'n App" where
  "perform es st = st\<lparr>effects := effects st @ es\<rparr>"

section \<open>The AI suggestion client (services/geminiService.ts)\<close>

text \<open>
  \<open>fileToGenerativePart\<close>: the promise is rejected when the reader fails, and otherwise
  resolved with what follows the first comma of the data URL.
\<close>

definition fileToGenerativePart :: "File \<Rightarrow> error + string option" where
  "fileToGenerativePart file =
     (case reader_result file of
        None \<Rightarrow> Inl ReadFailed
      | Some base64String \<Rightarrow> Inr (js_index (js_split CHR '','' base64String) 1))"

definition add_reference_note :: "part \<Rightarrow> part" where
  "add_reference_note p = (case p of Text t _ \<Rightarrow> Text t True | InlineData m d \<Rightarrow> InlineData m d)"

definition build_request :: "string option \<Rightarrow> string \<Rightarrow> string option \<Rightarrow> request" where
  "build_request imageBase64 userPrompt referenceImageBase64 =
     (let instruction =
            (if userPrompt \<noteq> [] then userPrompt
             else ''Auto-enhance this image based on its content (Cast a spell).'');
          parts0 = [InlineData ''image/jpeg'' imageBase64, Text instruction False];
          parts1 =
            (if truthy referenceImageBase64
             then (let spliced = take 1 parts0 @ [InlineData ''image/jpeg'' referenceImageBase64] @ drop 1 parts0
                   in spliced[2 := add_reference_note (spliced ! 2)])
             else parts0)
      in \<lparr>model = ''gemini-2.5-flash'', parts = parts1\<rparr>)"

text \<open>
  \<open>analyzeImageAndGetSettings\<close> sends one request. A failed request, a response without
  text (absent or empty) and a text that does not parse are logged and thrown again:
  the result is \<open>Inl\<close> of the error. Otherwise it is the parsed \<open>AnalysisResult\<close>.
\<close>

definition analyzeImageAndGetSettings ::
  "'n Env \<Rightarrow> string option \<Rightarrow> string \<Rightarrow> string option \<Rightarrow> effect list \<times> (error + 'n AnalysisResult)" where
  "analyzeImageAndGetSettings env imageBase64 userPrompt referenceImageBase64 =
     (let req = build_request imageBase64 userPrompt referenceImageBase64;
          outcome =
            (case generateContent env req of
               Rejected \<Rightarrow> Inl RequestFailed
             | Response None \<Rightarrow> Inl NoResponseText
             | Response (Some t) \<Rightarrow>
                 (if t \<noteq> []
                  then (case JSON_parse env t of None \<Rightarrow> Inl SyntaxError | Some r \<Rightarrow> Inr r)
                  else Inl NoResponseText))
      in (case outcome of
            Inl e \<Rightarrow> ([GenerateContent req, ConsoleError ''Gemini Analysis Error:''], Inl e)
          | Inr r \<Rightarrow> ([GenerateContent req], Inr r)))"

section \<open>The handlers of the App component (App.tsx)\<close>

definition handleImageSelect :: "File \<Rightarrow> 'n App \<Rightarrow> 'n App" where
  "handleImageSelect file st =
     (case fileToGenerativePart file of
        Inr base64 \<Rightarrow>
          st\<lparr>currentImage := Some (''data:'' @ file_type file @ '';base64,'' @ template_string base64),
             currentSettings := defaultSettings_ref, aiReasoning := [], showCompare := False\<rparr>
      | Inl e \<Rightarrow> perform [ConsoleError ''Error loading image''] st)"

definition handleResetImage :: "'n App \<Rightarrow> 'n App" where
  "handleResetImage st =
     st\<lparr>currentImage := None, currentSettings := defaultSettings_ref, aiReasoning := [],
        showCompare := False, promptText := [], refImage := None\<rparr>"

text \<open>A failed read of the reference image is not caught: nothing is set.\<close>

definition handleRefImageSelect :: "File list \<Rightarrow> 'n App \<Rightarrow> 'n App" where
  "handleRefImageSelect files st =
     (case files of
        [] \<Rightarrow> st
      | file # _ \<Rightarrow>
          (case fileToGenerativePart file of
             Inr base64 \<Rightarrow>
               st\<lparr>refImage := Some (''data:'' @ file_type file @ '';base64,'' @ template_string base64)\<rparr>
           | Inl e \<Rightarrow> st))"

text \<open>
  \<open>handleCastSpell\<close>. On success the new current settings are a new object, the spread of
  the previous settings and the suggested ones; in the \<open>catch\<close> branch only the reasoning
  text is set.
\<close>

definition cleanBase64 :: "string \<Rightarrow> string option" where
  "cleanBase64 img = js_index (js_split CHR '','' img) 1"

definition cleanRefBase64 :: "string option \<Rightarrow> string option" where
  "cleanRefBase64 ref_img =
     (case ref_img of
        None \<Rightarrow> None
      | Some r \<Rightarrow> if r = [] then None else js_index (js_split CHR '','' r) 1)"

definition handleCastSpell :: "'n Env \<Rightarrow> 'n App \<Rightarrow> 'n App" where
  "handleCastSpell env st =
     (case currentImage st of
        None \<Rightarrow> st
      | Some img \<Rightarrow>
          if img = [] then st
          else
            (let st1 = st\<lparr>isProcessing := True,
                           aiReasoning := ''Nano Banana is analyzing histogram, exposure, and composition...''\<rparr>;
                 (es, outcome) =
                   analyzeImageAndGetSettings env (cleanBase64 img) (promptText st)
                     (cleanRefBase64 (refImage st));
                 st2 = perform es st1;
                 st3 =
                   (case outcome of
                      Inr result \<Rightarrow>
                        (let (r, st') = new_object (spread (store st2 (currentSettings st2))
                                                          (suggestedSettings result)) st2
                         in st'\<lparr>currentSettings := r, aiReasoning := reasoning result,
                                showCompare := False\<rparr>)
                    | Inl e \<Rightarrow>
                        (perform [ConsoleError ''AI Error''] st2)
                          \<lparr>aiReasoning := ''Oops! The spell fizzled. Please try again.''\<rparr>)
             in st3\<lparr>isProcessing := False\<rparr>))"

definition handleSaveToCollection :: "readings \<Rightarrow> 'n App \<Rightarrow> 'n App" where
  "handleSaveToCollection rd st =
     (case currentImage st of
        None \<Rightarrow> st
      | Some img \<Rightarrow>
          if img = [] then st
          else
            (let newItem =
                   \<lparr>id_item = toString_int (now_id rd) @ js_slice 2 6 (random rd),
                    originalUrl = img,
                    name = units (''Photo '' @ toString_nat (length (collection st) + 1)),
                    timestamp = now_timestamp rd,
                    settings = currentSettings st,
                    previewUrl = None\<rparr>
             in perform [Alert ''Saved to collection!''] (st\<lparr>collection := newItem # collection st\<rparr>)))"

subsection \<open>Export\<close>

text \<open>The filter of the drawing context, as \<open>processAndDownloadImage\<close> builds it.\<close>

definition canvas_filter :: "('n option \<Rightarrow> string) \<Rightarrow> 'n FilterSettings \<Rightarrow> string" where
  "canvas_filter str s =
     template str
       [Lit ''brightness('', Sub (s ''brightness''), Lit ''%) contrast('', Sub (s ''contrast''),
        Lit ''%) saturate('', Sub (s ''saturation''), Lit ''%) sepia('', Sub (s ''sepia''),
        Lit ''%) grayscale('', Sub (s ''grayscale''), Lit ''%) hue-rotate('', Sub (s ''hueRotate''),
        Lit ''deg) blur('', Sub (s ''blur''), Lit ''px)'']"

definition download_name :: "'n Env \<Rightarrow> PhotoItem \<Rightarrow> js_string" where
  "download_name env item =
     units ''bananalens-''
     @ toLowerCase (unicode_toLowerCase env) (replace_whitespace (name item))
     @ units ''.png''"

text \<open>
  \<open>processAndDownloadImage\<close>: the promise resolves in every case. A download is triggered
  only when the image loads and the canvas has a 2d context.
\<close>

definition processAndDownloadImage :: "'n Env \<Rightarrow> 'n App \<Rightarrow> PhotoItem \<Rightarrow> effect list" where
  "processAndDownloadImage env st item =
     (case image_load env (originalUrl item) of
        OnLoad w h \<Rightarrow>
          if getContext env item
          then [Download (download_name env item) (originalUrl item) w h
                  (canvas_filter (ToString env) (store st (settings item)))]
          else []
      | OnError \<Rightarrow> [])"

definition handleSingleExport :: "'n Env \<Rightarrow> int \<Rightarrow> 'n App \<Rightarrow> 'n App" where
  "handleSingleExport env now st =
     (case currentImage st of
        None \<Rightarrow> st
      | Some img \<Rightarrow>
          if img = [] then st
          else
            (let tempItem =
                   \<lparr>id_item = ''temp'', originalUrl = img, name = units ''edit'', timestamp = now,
                    settings = currentSettings st, previewUrl = None\<rparr>
             in perform (processAndDownloadImage env st tempItem) st))"

text \<open>The loop of \<open>handleBatchExport\<close>: one item after the other, each followed by a pause.\<close>

fun export_loop :: "'n Env \<Rightarrow> PhotoItem list \<Rightarrow> 'n App \<times> nat \<Rightarrow> 'n App \<times> nat" where
  "export_loop env [] acc = acc"
| "export_loop env (item # items) (st, processed) =
     export_loop env items
       (perform [Delay 500] (perform (processAndDownloadImage env st item) st), processed + 1)"

definition itemsToExport :: "'n App \<Rightarrow> PhotoItem list" where
  "itemsToExport st = filter (\<lambda>item. id_item item |\<in>| exportSelection st) (collection st)"

definition handleBatchExport :: "'n Env \<Rightarrow> 'n App \<Rightarrow> 'n App" where
  "handleBatchExport env st =
     (if fcard (exportSelection st) = 0 then st
      else
        (let (st', processed) = export_loop env (itemsToExport st) (st, 0)
         in perform [Alert (''Exported '' @ toString_nat processed @ '' photos.'')]
              (st'\<lparr>exportSelection := {||}\<rparr>)))"

subsection \<open>Import\<close>

text \<open>
  The loop of \<open>handleBatchImport\<close> from index \<open>i\<close> on: a file that is read becomes an
  item pushed at the end of \<open>newItems\<close>; a file whose read fails is logged and skipped.
  \<open>len\<close> is \<open>collection.length\<close> as the callback captured it.
\<close>

definition import_item :: "readings \<Rightarrow> nat \<Rightarrow> nat \<Rightarrow> File \<Rightarrow> string option \<Rightarrow> PhotoItem" where
  "import_item rd len i file base64 =
     \<lparr>id_item = toString_int (now_id rd) @ js_slice 2 8 (random rd) @ toString_nat i,
      originalUrl = ''data:'' @ file_type file @ '';base64,'' @ template_string base64,
      name = (case js_index (js_split (of_char CHR ''.'') (file_name file)) 0 of
                Some first \<Rightarrow>
                  if first \<noteq> [] then first
                  else units (''Photo '' @ toString_nat (len + i + 1))
              | None \<Rightarrow> units (''Photo '' @ toString_nat (len + i + 1))),
      timestamp = now_timestamp rd,
      settings = defaultSettings_ref,
      previewUrl = None\<rparr>"

fun import_loop ::
  "(nat \<Rightarrow> readings) \<Rightarrow> nat \<Rightarrow> nat \<Rightarrow> File list \<Rightarrow> PhotoItem list \<times> effect list
     \<Rightarrow> PhotoItem list \<times> effect list" where
  "import_loop rd len i [] acc = acc"
| "import_loop rd len i (file # files) (newItems, es) =
     (case fileToGenerativePart file of
        Inr base64 \<Rightarrow>
          import_loop rd len (i + 1) files (newItems @ [import_item (rd i) len i file base64], es)
      | Inl e \<Rightarrow>
          import_loop rd len (i + 1) files
            (newItems, es @ [ConsoleError ''Failed to import file'']))"

definition handleBatchImport :: "(nat \<Rightarrow> readings) \<Rightarrow> File list \<Rightarrow> 'n App \<Rightarrow> 'n App" where
  "handleBatchImport rd files st =
     (let (newItems, es) = import_loop rd (length (collection st)) 0 files ([], [])
      in perform (es @ [Alert (''Imported '' @ toString_nat (length newItems) @ '' photos to your collection.'')])
           (st\<lparr>collection := newItems @ collection st, view := COLLECTION\<rparr>))"

subsection \<open>Selection, and loading a saved item\<close>

definition toggleExportSelection :: "string \<Rightarrow> 'n App \<Rightarrow> 'n App" where
  "toggleExportSelection ident st =
     (let newSet = exportSelection st
      in st\<lparr>exportSelection :=
              (if ident |\<in>| newSet then newSet |-| {|ident|} else finsert ident newSet)\<rparr>)"

text \<open>The Edit button of a collection entry (\<open>renderCollection\<close>).\<close>

definition edit_item :: "PhotoItem \<Rightarrow> 'n App \<Rightarrow> 'n App" where
  "edit_item item st =
     st\<lparr>currentImage := Some (originalUrl item), currentSettings := settings item, view := HOME\<rparr>"

subsection \<open>Everything the user can do\<close>

text \<open>
  One event per control of the page. The Edit button and the selection tile exist for the
  entries of the collection only, so these two events name an entry by its position.
\<close>

datatype event =
    ImageSelect File
  | ResetImage
  | RefImageSelect "File list"
  | ClearRefImage
  | SetPromptText string
  | CastSpell
  | ToggleCompare
  | SaveToCollection readings
  | SingleExport int
  | BatchExport
  | BatchImport "nat \<Rightarrow> readings" "File list"
  | ToggleSelection nat
  | Edit nat
  | SetView ViewMode
  | ToggleSidebarOpen
  | ToggleSidebarCollapse

fun step :: "'n Env \<Rightarrow> 'n App \<Rightarrow> event \<Rightarrow> 'n App" where
  "step env st (ImageSelect file) = handleImageSelect file st"
| "step env st ResetImage = handleResetImage st"
| "step env st (RefImageSelect files) = handleRefImageSelect files st"
| "step env st ClearRefImage = st\<lparr>refImage := None\<rparr>"
| "step env st (SetPromptText t) = st\<lparr>promptText := t\<rparr>"
| "step env st CastSpell = handleCastSpell env st"
| "step env st ToggleCompare = st\<lparr>showCompare := \<not> showCompare st\<rparr>"
| "step env st (SaveToCollection rd) = handleSaveToCollection rd st"
| "step env st (SingleExport now) = handleSingleExport env now st"
| "step env st BatchExport = handleBatchExport env st"
| "step env st (BatchImport rd files) = handleBatchImport rd files st"
| "step env st (ToggleSelection i) =
     (if i < length (collection st) then toggleExportSelection (id_item (collection st ! i)) st else st)"
| "step env st (Edit i) =
     (if i < length (collection st) then edit_item (collection st ! i) st else st)"
| "step env st (SetView v) = st\<lparr>view := v\<rparr>"
| "step env st ToggleSidebarOpen = st\<lparr>isSidebarOpen := \<not> isSidebarOpen st\<rparr>"
| "step env st ToggleSidebarCollapse = st\<lparr>isSidebarCollapsed := \<not> isSidebarCollapsed st\<rparr>"

definition run :: "'n Env \<Rightarrow> 'n App \<Rightarrow> event list \<Rightarrow> 'n App" where
  "run env st evs = foldl (step env) st evs"

text \<open>
  Every reference the state holds is below the allocation pointer, and so is the
  reference of \<open>defaultSettings\<close>.
\<close>

definition allocated :: "'n App \<Rightarrow> bool" where
  "allocated st \<longleftrightarrow>
     defaultSettings_ref < fresh st \<and> currentSettings st < fresh st \<and>
     list_all (\<lambda>item. settings item < fresh st) (collection st)"

section \<open>The compare slider (components/BeforeAfter.tsx)\<close>

text \<open>
  Coordinates are real numbers; rounding is not modelled. A division yields a number,
  \<open>NaN\<close> or an infinity, as in JavaScript (the sign of a zero is not tracked).
\<close>

datatype number = Num real | NaN | Infinity | NegInfinity

definition js_divide :: "real \<Rightarrow> real \<Rightarrow> number" where
  "js_divide a b =
     (if b \<noteq> 0 then Num (a / b)
      else if a = 0 then NaN
      else if 0 < a then Infinity else NegInfinity)"

definition js_times :: "number \<Rightarrow> real \<Rightarrow> number" where
  "js_times a b =
     (case a of
        Num r \<Rightarrow> Num (r * b)
      | NaN \<Rightarrow> NaN
      | Infinity \<Rightarrow> (if b = 0 then NaN else if 0 < b then Infinity else NegInfinity)
      | NegInfinity \<Rightarrow> (if b = 0 then NaN else if 0 < b then NegInfinity else Infinity))"

record DOMRect =
  left :: real
  width :: real

record BeforeAfter =
  sliderPosition :: number
  isResizing :: bool

definition initial_BeforeAfter :: BeforeAfter where
  "initial_BeforeAfter = \<lparr>sliderPosition = Num 50, isResizing = False\<rparr>"


definition handleMouseDown :: "bool \<Rightarrow> BeforeAfter \<Rightarrow> BeforeAfter" where
  "handleMouseDown isCompareActive ba = (if isCompareActive then ba\<lparr>isResizing := True\<rparr> else ba)"

definition handleMouseUp :: "BeforeAfter \<Rightarrow> BeforeAfter" where
  "handleMouseUp ba = ba\<lparr>isResizing := False\<rparr>"

text \<open>
  \<open>container\<close> is the bounding rectangle of \<open>containerRef.current\<close>, \<open>None\<close> when the
  reference is empty.
\<close>

definition handleMouseMove :: "bool \<Rightarrow> DOMRect option \<Rightarrow> real \<Rightarrow> BeforeAfter \<Rightarrow> BeforeAfter" where
  "handleMouseMove isCompareActive container clientX ba =
     (case container of
        None \<Rightarrow> ba
      | Some rect \<Rightarrow>
          if \<not> isResizing ba \<or> \<not> isCompareActive then ba
          else
            (let x = max 0 (min (clientX - left rect) (width rect))
             in ba\<lparr>sliderPosition := js_times (js_divide x (width rect)) 100\<rparr>))"

text \<open>\<open>touches\<close> holds the \<open>clientX\<close> of each touch; reading the first of none throws.\<close>

definition handleTouchMove ::
  "bool \<Rightarrow> DOMRect option \<Rightarrow> real list \<Rightarrow> BeforeAfter \<Rightarrow> error + BeforeAfter" where
  "handleTouchMove isCompareActive container touches ba =
     (case container of
        None \<Rightarrow> Inr ba
      | Some rect \<Rightarrow>
          if \<not> isResizing ba \<or> \<not> isCompareActive then Inr ba
          else
            (case touches of
               [] \<Rightarrow> Inl TypeError
             | clientX # _ \<Rightarrow>
                 (let x = max 0 (min (clientX - left rect) (width rect))
                  in Inr (ba\<lparr>sliderPosition := js_times (js_divide x (width rect)) 100\<rparr>))))"

section \<open>Notions used to state the properties\<close>

subsection \<open>The AI call\<close>

text \<open>
  The request fails when it is rejected (a network error), when the response has no text
  or an empty one, and when the text does not parse.
\<close>

definition call_fails :: "'n Env \<Rightarrow> request \<Rightarrow> bool" where
  "call_fails env req =
     (case generateContent env req of
        Rejected \<Rightarrow> True
      | Response None \<Rightarrow> True
      | Response (Some t) \<Rightarrow> t = [] \<or> JSON_parse env t = None)"

definition is_request :: "effect \<Rightarrow> bool" where
  "is_request e = (case e of GenerateContent _ \<Rightarrow> True | _ \<Rightarrow> False)"

text \<open>The properties of \<open>suggestedSettings\<close> in the response schema of the request.\<close>

definition responseSchema_properties :: "string list" where
  "responseSchema_properties =
     [''brightness'', ''contrast'', ''saturation'', ''sepia'', ''grayscale'', ''hueRotate'', ''blur'']"

subsection \<open>The slider\<close>

definition in_range :: "number \<Rightarrow> bool" where
  "in_range p = (case p of Num r \<Rightarrow> 0 \<le> r \<and> r \<le> 100 | _ \<Rightarrow> False)"

subsection \<open>Import\<close>

definition readable :: "File \<Rightarrow> bool" where
  "readable f \<longleftrightarrow> reader_result f \<noteq> None"

text \<open>The item that the file at position \<open>i\<close> of the input becomes when it is read.\<close>

definition imported :: "(nat \<Rightarrow> readings) \<Rightarrow> nat \<Rightarrow> nat \<times> File \<Rightarrow> PhotoItem" where
  "imported rd len p =
     (case p of (i, f) \<Rightarrow>
        import_item (rd i) len i f
          (js_index (js_split CHR '','' (template_string (reader_result f))) 1))"

definition data_url :: "File \<Rightarrow> string" where
  "data_url f =
     ''data:'' @ file_type f @ '';base64,'' @
     template_string (js_index (js_split CHR '','' (template_string (reader_result f))) 1)"

subsection \<open>Export\<close>

definition is_download :: "effect \<Rightarrow> bool" where
  "is_download e = (case e of Download _ _ _ _ _ \<Rightarrow> True | _ \<Rightarrow> False)"

definition loads :: "'n Env \<Rightarrow> PhotoItem \<Rightarrow> bool" where
  "loads env item =
     (case image_load env (originalUrl item) of OnLoad _ _ \<Rightarrow> True | OnError \<Rightarrow> False)"

text \<open>
  The hyphenated form of a name: the name is cut at its runs of whitespace
  (\<open>split_whitespace\<close>, which is \<open>name.split(/\s+/)\<close>) and the pieces are joined with
  hyphens. The slug is the hyphenated form with its letters lowered.
\<close>

function split_whitespace :: "js_string \<Rightarrow> js_string list" where
  "split_whitespace [] = [[]]"
| "split_whitespace (c # cs) =
     (if isSpace c then [] # split_whitespace (dropWhile isSpace cs)
      else (case split_whitespace cs of
              w # ws \<Rightarrow> (c # w) # ws
            | [] \<Rightarrow> [[c]]))"
  by pat_completeness auto
termination
  by (relation "measure length") (auto simp: length_dropWhile_le less_Suc_eq_le)

fun join :: "'a list \<Rightarrow> 'a list list \<Rightarrow> 'a list" where
  "join sep [] = []"
| "join sep [w] = w"
| "join sep (w # v # ws) = w @ sep @ join sep (v # ws)"

definition hyphenated :: "js_string \<Rightarrow> js_string" where
  "hyphenated nm = join [hyphen] (split_whitespace nm)"

definition slug :: "(js_string \<Rightarrow> js_string) \<Rightarrow> js_string \<Rightarrow> js_string" where
  "slug table nm = toLowerCase table (hyphenated nm)"

subsection \<open>The store\<close>

text \<open>
  \<open>extends st st'\<close>: the collection of \<open>st'\<close> is that of \<open>st\<close> with entries put in front, and
  every object that \<open>st\<close> had allocated is the same in \<open>st'\<close>.
\<close>

definition extends :: "'n App \<Rightarrow> 'n App \<Rightarrow> bool" where
  "extends st st' \<longleftrightarrow>
     (\<exists>new. collection st' = new @ collection st) \<and>
     (\<forall>r. r < fresh st \<longrightarrow> store st' r = store st r) \<and>
     fresh st \<le> fresh st'"

subsection \<open>Concrete inputs\<close>


definition example_result :: "int AnalysisResult" where
  "example_result =
     \<lparr>reasoning = ''Underexposed landscape; lifted brightness.'',
      suggestedSettings = [''brightness'' \<mapsto> 120, ''contrast'' \<mapsto> 110, ''saturation'' \<mapsto> 90]\<rparr>"

text \<open>
  An environment in which the hosted model answers, the answer parses to
  \<open>example_result\<close>, and one image URL decodes; and the same environment without network.
  No name of the examples has a code unit outside Latin-1 once it is hyphenated, so the
  case conversion of the environment is never asked.
\<close>

definition example_env :: "int Env" where
  "example_env =
     \<lparr>generateContent = (\<lambda>req. Response (Some ''answer'')),
      JSON_parse = (\<lambda>t. if t = ''answer'' then Some example_result else None),
      ToString = template_int,
      image_load = (\<lambda>url. if url = ''data:image/png;base64,QUJD'' then OnLoad 4 3 else OnError),
      getContext = (\<lambda>item. True),
      unicode_toLowerCase = (\<lambda>s. s)\<rparr>"

definition offline_env :: "int Env" where
  "offline_env = example_env\<lparr>generateContent := (\<lambda>req. Rejected)\<rparr>"

definition example_files :: "File list" where
  "example_files =
     [\<lparr>file_name = units ''Beach Day.png'', file_type = ''image/png'',
       reader_result = Some ''data:image/png;base64,QUJD''\<rparr>,
      \<lparr>file_name = units ''broken.png'', file_type = ''image/png'', reader_result = None\<rparr>,
      \<lparr>file_name = units ''.hidden'', file_type = ''image/jpeg'',
       reader_result = Some ''data:image/jpeg;base64,REVG''\<rparr>]"

definition example_readings :: "nat \<Rightarrow> readings" where
  "example_readings i = \<lparr>now_id = 1700000000000 + int i, random = ''0.4821973'', now_timestamp = 1700000000000 + int i\<rparr>"

text \<open>
  A name with a capital E acute (U+00C9), a no-break space (U+00A0) and an em space
  (U+2003): \<open>CAF\<close>, U+00C9, U+00A0, U+2003, \<open>1\<close>. And a saved item with an ASCII name
  whose image decodes in the example environment.
\<close>

definition example_name :: js_string where
  "example_name = units ''CAF'' @ [201, 160, 8195] @ units ''1''"

definition example_item :: PhotoItem where
  "example_item =
     \<lparr>id_item = ''17000000000001234'', originalUrl = ''data:image/png;base64,QUJD'',
      name = units ''Beach  Day 2'', timestamp = 1700000000000, settings = 0,
      previewUrl = None\<rparr>"

text \<open>The editor with an image loaded and the default settings.\<close>

definition example_editor :: "int App" where
  "example_editor = initial\<lparr>currentImage := Some ''data:image/png;base64,QUJD''\<rparr>"

text \<open>The state after importing the example files into the empty collection.\<close>

definition example_state :: "int App" where
  "example_state = handleBatchImport example_readings example_files initial"

text \<open>The same state after both entries have been selected for export.\<close>

definition example_selected :: "int App" where
  "example_selected = run example_env example_state [ToggleSelection 0, ToggleSelection 1]"

section \<open>The compare slider stays within its bounds\<close>

lemma percent_in_range:
  assumes "0 < w" "0 \<le> x" "x \<le> w"
  shows "in_range (js_times (js_divide x w) 100)"
  using assms by (simp add: in_range_def js_times_def js_divide_def divide_le_eq)

text \<open>
  Claim C3, as amended. While a drag is active in compare mode over a container of
  positive width, every mouse move and every touch move, whatever the pointer coordinate
  (also outside the image), clamps the x-offset to \<open>[0, width]\<close> and sets the slider
  position to that offset as a percentage of the width, which lies in \<open>[0, 100]\<close>. A touch
  move does what a mouse move at the first touch does. The width of a bounding rectangle
  is never negative, so the only width left out is 0.
\<close>

theorem slider_position_in_range:
  assumes "isResizing ba" and "isCompareActive" and "0 < width rect"
  shows "in_range (sliderPosition (handleMouseMove isCompareActive (Some rect) clientX ba))
       \<and> handleTouchMove isCompareActive (Some rect) (clientX # others) ba =
           Inr (handleMouseMove isCompareActive (Some rect) clientX ba)
       \<and> sliderPosition (handleMouseMove isCompareActive (Some rect) clientX ba) =
           Num (max 0 (min (clientX - left rect) (width rect)) / width rect * 100)
       \<and> 0 \<le> max 0 (min (clientX - left rect) (width rect))
       \<and> max 0 (min (clientX - left rect) (width rect)) \<le> width rect"
proof -
  let ?x = "max 0 (min (clientX - left rect) (width rect))"
  have x: "0 \<le> ?x" "?x \<le> width rect"
    using assms(3) by auto
  have "in_range (js_times (js_divide ?x (width rect)) 100)"
    using assms(3) x by (rule percent_in_range)
  then show ?thesis
    using assms x
    by (simp add: handleMouseMove_def handleTouchMove_def Let_def js_times_def js_divide_def)
qed

text \<open>A pointer far to the right of a container 200 wide: the position is 100.\<close>

theorem slider_position_in_range_witness:
  "in_range (sliderPosition (handleMouseMove True (Some \<lparr>left = 10, width = 200\<rparr>) 500
      \<lparr>sliderPosition = Num 50, isResizing = True\<rparr>))
   \<and> sliderPosition (handleMouseMove True (Some \<lparr>left = 10, width = 200\<rparr>) 500
      \<lparr>sliderPosition = Num 50, isResizing = True\<rparr>) = Num 100"
proof -
  have h: "isResizing \<lparr>sliderPosition = Num 50, isResizing = True\<rparr>" "True"
    "0 < width \<lparr>left = 10, width = 200\<rparr>"
    by simp_all
  note t = slider_position_in_range [OF h, of 500 "[]"]
  have a: "in_range (sliderPosition (handleMouseMove True (Some \<lparr>left = 10, width = 200\<rparr>) 500
      \<lparr>sliderPosition = Num 50, isResizing = True\<rparr>))"
    using t by (rule conjunct1)
  have b: "sliderPosition (handleMouseMove True (Some \<lparr>left = 10, width = 200\<rparr>) 500
      \<lparr>sliderPosition = Num 50, isResizing = True\<rparr>) = Num 100"
    using t by simp
  show ?thesis
    using a b by (rule conjI)
qed

text \<open>
  The claim as stated fails for a container of width 0: the offset is clamped to 0, and
  \<open>0 / 0 * 100\<close> is \<open>NaN\<close>, which is not in \<open>[0, 100]\<close>.
\<close>

theorem slider_position_zero_width:
  "\<not> in_range (sliderPosition (handleMouseMove True (Some \<lparr>left = 0, width = 0\<rparr>) 5
      \<lparr>sliderPosition = Num 50, isResizing = True\<rparr>))"
  by (simp add: handleMouseMove_def in_range_def js_divide_def js_times_def)

section \<open>The filter string\<close>



section \<open>The export selection\<close>

text \<open>
  Claim C6. Toggling the export selection of an item id twice gives back the state before,
  and so the same selection set.
\<close>

theorem toggle_twice:
  "toggleExportSelection x (toggleExportSelection x st) = st
   \<and> exportSelection (toggleExportSelection x (toggleExportSelection x st)) = exportSelection st"
  by (cases "x |\<in>| exportSelection st")
     (simp_all add: toggleExportSelection_def Let_def finsert_absorb)

section \<open>The name of a download\<close>

lemma split_whitespace_nonempty: "split_whitespace s \<noteq> []"
  by (induction s rule: split_whitespace.induct) (auto split: list.splits)

lemma join_Cons_Cons: "join sep ((c # w) # ws) = c # join sep (w # ws)"
  by (cases ws) auto

lemma hyphenated_replace: "hyphenated s = replace_whitespace s"
  unfolding hyphenated_def
proof (induction s rule: replace_whitespace.induct)
  case 1
  show ?case by simp
next
  case (2 c cs)
  show ?case
  proof (cases "isSpace c")
    case True
    with 2 show ?thesis
      by (cases "split_whitespace (dropWhile isSpace cs)") (auto simp: split_whitespace_nonempty)
  next
    case False
    with 2 show ?thesis
      by (cases "split_whitespace cs")
         (auto simp: split_whitespace_nonempty join_Cons_Cons simp del: join.simps)
  qed
qed

lemma replace_whitespace_no_space: "u \<in> set (replace_whitespace s) \<Longrightarrow> \<not> isSpace u"
proof (induction s rule: replace_whitespace.induct)
  case 1
  then show ?case by simp
next
  case (2 d ds)
  then show ?case by (auto simp: isSpace_def hyphen_def split: if_splits)
qed

lemma replace_whitespace_subset: "set (replace_whitespace s) \<subseteq> insert hyphen (set s)"
proof (induction s rule: replace_whitespace.induct)
  case 1
  show ?case by simp
next
  case (2 d ds)
  have "set (dropWhile isSpace ds) \<subseteq> set ds"
    by (auto dest: set_dropWhileD)
  with 2 show ?case by auto
qed

lemma replace_whitespace_latin1: "latin1 s \<Longrightarrow> latin1 (replace_whitespace s)"
  using replace_whitespace_subset [of s] by (auto simp: latin1_def list_all_iff hyphen_def)

lemma toLowerUnit_not_upper: "\<not> isUpper (toLowerUnit u)"
  by (auto simp: toLowerUnit_def isUpper_def)

lemma toLowerUnit_space: "isSpace (toLowerUnit u) \<longleftrightarrow> isSpace u"
  by (auto simp: toLowerUnit_def isUpper_def isSpace_def)

lemma slug_latin1:
  assumes "latin1 nm"
  shows "list_all (\<lambda>u. \<not> isSpace u \<and> \<not> isUpper u) (slug table nm)"
proof -
  have "slug table nm = map toLowerUnit (replace_whitespace nm)"
    using replace_whitespace_latin1 [OF assms] by (simp add: slug_def toLowerCase_def hyphenated_replace)
  then show ?thesis
    by (auto simp: list_all_iff toLowerUnit_space toLowerUnit_not_upper
             dest: replace_whitespace_no_space)
qed

lemma download_name_slug:
  "download_name env item =
     units ''bananalens-'' @ slug (unicode_toLowerCase env) (name item) @ units ''.png''"
  by (simp add: download_name_def slug_def hyphenated_replace)

lemma download_when_loaded:
  assumes "image_load env (originalUrl item) = OnLoad w h" and "getContext env item"
  shows "processAndDownloadImage env st item =
           [Download (download_name env item) (originalUrl item) w h
              (canvas_filter (ToString env) (store st (settings item)))]"
  using assms by (simp add: processAndDownloadImage_def)

lemma no_download_otherwise:
  assumes "image_load env (originalUrl item) = OnError \<or> \<not> getContext env item"
  shows "processAndDownloadImage env st item = []"
  using assms by (auto simp: processAndDownloadImage_def split: image_event.splits)

text \<open>
  Claim C8. For every item name, a sequence of UTF-16 code units, the name of the download
  is \<open>bananalens-\<close>, the slug and \<open>.png\<close>. The slug is \<open>toLowerCase\<close> of the hyphenated name,
  and the hyphenated name is the pieces between the runs of whitespace (the whole class
  \<open>\s\<close>) joined with hyphens; no whitespace is left in it. Where the hyphenated name is in
  Latin-1 the slug is its unit-by-unit lowering, and elsewhere it is the case conversion
  of the environment; for a name in Latin-1 the slug has neither whitespace nor a capital
  letter. An export whose image loads on a canvas with a context triggers exactly one
  download, of this name; any other export triggers none. The name \<open>CAF\<close>, U+00C9, U+00A0,
  U+2003, \<open>1\<close> has the slug \<open>caf\<close>, U+00E9, \<open>-1\<close>.
\<close>

theorem download_named_by_slug:
  "download_name env item =
     units ''bananalens-''
     @ toLowerCase (unicode_toLowerCase env) (join [hyphen] (split_whitespace (name item)))
     @ units ''.png''
   \<and> slug (unicode_toLowerCase env) (name item) =
       toLowerCase (unicode_toLowerCase env) (join [hyphen] (split_whitespace (name item)))
   \<and> list_all (\<lambda>u. \<not> isSpace u) (join [hyphen] (split_whitespace (name item)))
   \<and> (if list_all (\<lambda>u. u < 256) (join [hyphen] (split_whitespace (name item)))
       then slug (unicode_toLowerCase env) (name item) =
              map (\<lambda>u. if (65 \<le> u \<and> u \<le> 90) \<or> (192 \<le> u \<and> u \<le> 222 \<and> u \<noteq> 215) then u + 32 else u)
                (join [hyphen] (split_whitespace (name item)))
       else slug (unicode_toLowerCase env) (name item) =
              unicode_toLowerCase env (join [hyphen] (split_whitespace (name item))))
   \<and> (list_all (\<lambda>u. u < 256) (name item) \<longrightarrow>
        list_all (\<lambda>u. \<not> isSpace u \<and> \<not> isUpper u) (slug (unicode_toLowerCase env) (name item)))
   \<and> (\<forall>w h. image_load env (originalUrl item) = OnLoad w h \<and> getContext env item \<longrightarrow>
        processAndDownloadImage env st item =
          [Download (units ''bananalens-'' @ slug (unicode_toLowerCase env) (name item) @ units ''.png'')
             (originalUrl item) w h (canvas_filter (ToString env) (store st (settings item)))])
   \<and> (image_load env (originalUrl item) = OnError \<or> \<not> getContext env item \<longrightarrow>
        processAndDownloadImage env st item = [])
   \<and> slug table example_name = units ''caf'' @ [233] @ units ''-1''"
proof -
  let ?h = "join [hyphen] (split_whitespace (name item))"
  let ?tbl = "unicode_toLowerCase env"
  have h: "?h = replace_whitespace (name item)"
    using hyphenated_replace [of "name item"] by (simp add: hyphenated_def)
  have n: "download_name env item = units ''bananalens-'' @ toLowerCase ?tbl ?h @ units ''.png''"
    unfolding h by (simp add: download_name_def)
  have s: "slug ?tbl (name item) = toLowerCase ?tbl ?h"
    by (simp add: slug_def hyphenated_def)
  have ns: "list_all (\<lambda>u. \<not> isSpace u) ?h"
    unfolding h by (auto simp: list_all_iff dest: replace_whitespace_no_space)
  have low: "(\<lambda>u. if (65 \<le> u \<and> u \<le> 90) \<or> (192 \<le> u \<and> u \<le> 222 \<and> u \<noteq> 215) then u + 32 else u)
      = toLowerUnit"
    by (rule ext) (simp add: toLowerUnit_def isUpper_def)
  have pin: "if list_all (\<lambda>u. u < 256) ?h
       then slug ?tbl (name item) = map toLowerUnit ?h
       else slug ?tbl (name item) = ?tbl ?h"
    unfolding s by (simp add: toLowerCase_def latin1_def)
  have l1: "list_all (\<lambda>u. u < 256) (name item) \<Longrightarrow>
      list_all (\<lambda>u. \<not> isSpace u \<and> \<not> isUpper u) (slug ?tbl (name item))"
    using slug_latin1 [of "name item" ?tbl] by (simp add: latin1_def)
  have d: "\<And>w h. image_load env (originalUrl item) = OnLoad w h \<and> getContext env item \<Longrightarrow>
      processAndDownloadImage env st item =
        [Download (units ''bananalens-'' @ slug ?tbl (name item) @ units ''.png'')
           (originalUrl item) w h (canvas_filter (ToString env) (store st (settings item)))]"
    using download_when_loaded [of env item _ _ st] by (simp add: download_name_slug)
  have nd: "image_load env (originalUrl item) = OnError \<or> \<not> getContext env item \<Longrightarrow>
      processAndDownloadImage env st item = []"
    by (rule no_download_otherwise)
  have e: "slug table example_name = units ''caf'' @ [233] @ units ''-1''"
  proof -
    have "hyphenated example_name = units ''CAF'' @ [201] @ units ''-1''"
      by (simp add: hyphenated_def example_name_def units_def isSpace_def hyphen_def)
    moreover have "latin1 (units ''CAF'' @ [201] @ units ''-1'')"
      by (simp add: latin1_def units_def)
    moreover have "map toLowerUnit (units ''CAF'' @ [201] @ units ''-1'') = units ''caf'' @ [233] @ units ''-1''"
      by (simp add: units_def toLowerUnit_def isUpper_def)
    ultimately show ?thesis
      by (simp add: slug_def toLowerCase_def)
  qed
  show ?thesis
    using n s ns pin l1 d nd e unfolding low by blast
qed

text \<open>
  The example item is named \<open>Beach  Day 2\<close> and its image loads: one download, named
  \<open>bananalens-beach-day-2.png\<close>.
\<close>

theorem download_named_by_slug_witness:
  "processAndDownloadImage example_env (initial :: int App) example_item =
     [Download (units ''bananalens-beach-day-2.png'') ''data:image/png;base64,QUJD'' 4 3
        ''brightness(100%) contrast(100%) saturate(100%) sepia(0%) grayscale(0%) hue-rotate(0deg) blur(0px)'']
   \<and> list_all (\<lambda>u. \<not> isSpace u \<and> \<not> isUpper u)
       (slug (unicode_toLowerCase example_env) (name example_item))"
proof -
  note t = download_named_by_slug [of example_env example_item "initial :: int App"]
  have l: "list_all (\<lambda>u. u < 256) (name example_item)"
    by (simp add: example_item_def units_def)
  have i: "image_load example_env (originalUrl example_item) = OnLoad 4 3 \<and> getContext example_env example_item"
    by (simp add: example_env_def example_item_def)
  have f: "canvas_filter (ToString example_env) (store (initial :: int App) (settings example_item)) =
      ''brightness(100%) contrast(100%) saturate(100%) sepia(0%) grayscale(0%) hue-rotate(0deg) blur(0px)''"
  proof -
    have "canvas_filter template_int (defaultSettings :: int FilterSettings) =
        ''brightness(100%) contrast(100%) saturate(100%) sepia(0%) grayscale(0%) hue-rotate(0deg) blur(0px)''"
      by code_simp
    then show ?thesis
      by (simp add: example_env_def example_item_def initial_def defaultSettings_ref_def)
  qed
  have nm: "units ''bananalens-'' @ slug (unicode_toLowerCase example_env) (name example_item) @ units ''.png''
      = units ''bananalens-beach-day-2.png''"
  proof -
    have "slug (\<lambda>s. s) (units ''Beach  Day 2'') = units ''beach-day-2''"
      by (simp add: slug_def hyphenated_def toLowerCase_def latin1_def units_def isSpace_def hyphen_def toLowerUnit_def isUpper_def)
    then show ?thesis
      by (simp add: example_env_def example_item_def units_def)
  qed
  have u: "originalUrl example_item = ''data:image/png;base64,QUJD''"
    by (simp add: example_item_def)
  have a: "processAndDownloadImage example_env (initial :: int App) example_item =
      [Download (units ''bananalens-'' @ slug (unicode_toLowerCase example_env) (name example_item) @ units ''.png'')
         (originalUrl example_item) 4 3
         (canvas_filter (ToString example_env) (store (initial :: int App) (settings example_item)))]"
    using t i by blast
  have b: "list_all (\<lambda>u. \<not> isSpace u \<and> \<not> isUpper u)
       (slug (unicode_toLowerCase example_env) (name example_item))"
    using t l by blast
  show ?thesis
    using a b unfolding nm f u by simp
qed

section \<open>Casting a spell\<close>

lemma analyze_failure:
  assumes "call_fails env (build_request a p r)"
  shows "\<exists>e. analyzeImageAndGetSettings env a p r =
           ([GenerateContent (build_request a p r), ConsoleError ''Gemini Analysis Error:''], Inl e)"
  using assms
  by (auto simp: analyzeImageAndGetSettings_def call_fails_def Let_def
           split: gen_result.splits option.splits)

lemma analyze_success:
  assumes "analyzeImageAndGetSettings env a p r = (es, Inr result)"
  shows "es = [GenerateContent (build_request a p r)] \<and> \<not> call_fails env (build_request a p r)"
  using assms
  by (auto simp: analyzeImageAndGetSettings_def call_fails_def Let_def
           split: gen_result.splits option.splits if_splits)

lemma cast_spell_success:
  assumes "currentImage st = Some img" and "img \<noteq> []"
      and "analyzeImageAndGetSettings env (cleanBase64 img) (promptText st)
             (cleanRefBase64 (refImage st)) = (es, Inr result)"
  shows "handleCastSpell env st =
           st\<lparr>isProcessing := False, aiReasoning := reasoning result, showCompare := False,
              currentSettings := fresh st,
              store := (store st)(fresh st := spread (store st (currentSettings st))
                                                   (suggestedSettings result)),
              fresh := Suc (fresh st),
              effects := effects st @ es\<rparr>"
  using assms by (simp add: handleCastSpell_def Let_def new_object_def perform_def)

lemma cast_spell_caught:
  assumes "currentImage st = Some img" and "img \<noteq> []"
      and "analyzeImageAndGetSettings env (cleanBase64 img) (promptText st)
             (cleanRefBase64 (refImage st)) = (es, Inl e)"
  shows "handleCastSpell env st =
           st\<lparr>isProcessing := False,
              aiReasoning := ''Oops! The spell fizzled. Please try again.'',
              effects := effects st @ es @ [ConsoleError ''AI Error'']\<rparr>"
  using assms by (simp add: handleCastSpell_def Let_def perform_def)

text \<open>
  Claim C1. When the AI suggestion call returns an \<open>AnalysisResult\<close>, the current settings
  after \<open>handleCastSpell\<close> have, for every property present in \<open>suggestedSettings\<close>, the
  suggested value, and for every property absent from it the value of the settings
  before. In particular warmth keeps its value whenever the suggestion has only
  properties of the response schema.
\<close>

theorem cast_spell_merges:
  assumes "currentImage st = Some img" and "img \<noteq> []"
      and "analyzeImageAndGetSettings env (cleanBase64 img) (promptText st)
             (cleanRefBase64 (refImage st)) = (es, Inr result)"
  shows "let st' = handleCastSpell env st;
             prev = store st (currentSettings st);
             merged = store st' (currentSettings st')
         in (\<forall>k v. suggestedSettings result k = Some v \<longrightarrow> merged k = Some v)
          \<and> (\<forall>k. suggestedSettings result k = None \<longrightarrow> merged k = prev k)
          \<and> (dom (suggestedSettings result) \<subseteq> set responseSchema_properties
               \<longrightarrow> merged ''warmth'' = prev ''warmth'')"
proof -
  have w: "''warmth'' \<notin> set responseSchema_properties"
    by (simp add: responseSchema_properties_def)
  have merged: "store (handleCastSpell env st) (currentSettings (handleCastSpell env st))
      = spread (store st (currentSettings st)) (suggestedSettings result)"
    by (simp add: cast_spell_success [OF assms])
  show ?thesis
    unfolding Let_def merged spread_def using w
    by (auto simp: map_add_def domIff split: option.splits)
qed

text \<open>
  With the default settings and the suggestion brightness 120, contrast 110, saturation
  90: brightness becomes 120, sepia stays 0 and warmth stays 0.
\<close>

theorem cast_spell_merges_witness:
  "store (handleCastSpell example_env example_editor)
     (currentSettings (handleCastSpell example_env example_editor)) ''brightness'' = Some 120
   \<and> store (handleCastSpell example_env example_editor)
     (currentSettings (handleCastSpell example_env example_editor)) ''sepia'' = Some 0
   \<and> store (handleCastSpell example_env example_editor)
     (currentSettings (handleCastSpell example_env example_editor)) ''warmth'' = Some 0"
proof -
  let ?img = "''data:image/png;base64,QUJD''"
  have img: "currentImage example_editor = Some ?img" "?img \<noteq> []"
    by (simp_all add: example_editor_def)
  have ok: "analyzeImageAndGetSettings example_env (cleanBase64 ?img) (promptText example_editor)
      (cleanRefBase64 (refImage example_editor))
      = ([GenerateContent (build_request (cleanBase64 ?img) (promptText example_editor)
            (cleanRefBase64 (refImage example_editor)))], Inr example_result)"
    by (simp add: analyzeImageAndGetSettings_def example_env_def Let_def)
  have prev: "store example_editor (currentSettings example_editor) = defaultSettings"
    by (simp add: example_editor_def initial_def)
  have sugg: "suggestedSettings example_result ''brightness'' = Some 120"
    "suggestedSettings example_result ''sepia'' = None"
    "dom (suggestedSettings example_result) \<subseteq> set responseSchema_properties"
    by (auto simp: example_result_def responseSchema_properties_def split: if_splits)
  have dflt: "(defaultSettings :: int FilterSettings) ''sepia'' = Some 0"
    "(defaultSettings :: int FilterSettings) ''warmth'' = Some 0"
    by (simp_all add: defaultSettings_def)
  show ?thesis
    using cast_spell_merges [OF img ok] sugg dflt
    unfolding Let_def prev by metis
qed

text \<open>
  Claim C2. When the AI suggestion call fails (the request is rejected, the response has
  no text or an empty one, or the text does not parse), the client throws and
  \<open>handleCastSpell\<close> catches: the reasoning text is the failure message, the current
  settings are the same reference to the same object as before (the whole store is
  unchanged), and exactly one request has been sent.
\<close>

theorem cast_spell_failure:
  assumes "currentImage st = Some img" and "img \<noteq> []"
      and "req = build_request (cleanBase64 img) (promptText st) (cleanRefBase64 (refImage st))"
      and "call_fails env req"
  shows "(\<exists>e. analyzeImageAndGetSettings env (cleanBase64 img) (promptText st)
                (cleanRefBase64 (refImage st))
              = ([GenerateContent req, ConsoleError ''Gemini Analysis Error:''], Inl e))
       \<and> handleCastSpell env st =
           st\<lparr>isProcessing := False,
              aiReasoning := ''Oops! The spell fizzled. Please try again.'',
              effects := effects st @ [GenerateContent req, ConsoleError ''Gemini Analysis Error:'',
                                       ConsoleError ''AI Error'']\<rparr>
       \<and> aiReasoning (handleCastSpell env st) = ''Oops! The spell fizzled. Please try again.''
       \<and> currentSettings (handleCastSpell env st) = currentSettings st
       \<and> store (handleCastSpell env st) = store st
       \<and> filter is_request (effects (handleCastSpell env st)) =
           filter is_request (effects st) @ [GenerateContent req]"
proof -
  obtain e where a: "analyzeImageAndGetSettings env (cleanBase64 img) (promptText st)
      (cleanRefBase64 (refImage st))
      = ([GenerateContent req, ConsoleError ''Gemini Analysis Error:''], Inl e)"
    using analyze_failure assms(3,4) by blast
  have h: "handleCastSpell env st =
           st\<lparr>isProcessing := False,
              aiReasoning := ''Oops! The spell fizzled. Please try again.'',
              effects := effects st @ [GenerateContent req, ConsoleError ''Gemini Analysis Error:'',
                                       ConsoleError ''AI Error'']\<rparr>"
    using cast_spell_caught [OF assms(1,2) a] by simp
  show ?thesis
    using a unfolding h by (simp add: is_request_def)
qed

text \<open>Without network, the spell on the example editor fizzles and the settings stay.\<close>

theorem cast_spell_failure_witness:
  "aiReasoning (handleCastSpell offline_env example_editor) =
     ''Oops! The spell fizzled. Please try again.''
   \<and> currentSettings (handleCastSpell offline_env example_editor) = currentSettings example_editor
   \<and> store (handleCastSpell offline_env example_editor) = store example_editor
   \<and> length (filter is_request (effects (handleCastSpell offline_env example_editor))) = 1"
proof -
  let ?img = "''data:image/png;base64,QUJD''"
  let ?req = "build_request (cleanBase64 ?img) (promptText example_editor)
                (cleanRefBase64 (refImage example_editor))"
  have img: "currentImage example_editor = Some ?img" "?img \<noteq> []"
    by (simp_all add: example_editor_def)
  have fails: "call_fails offline_env ?req"
    by (simp add: call_fails_def offline_env_def)
  have none: "effects example_editor = []"
    by (simp add: example_editor_def initial_def)
  note t = cast_spell_failure [OF img refl fails]
  have a: "aiReasoning (handleCastSpell offline_env example_editor) =
      ''Oops! The spell fizzled. Please try again.''"
    using t by blast
  have b: "currentSettings (handleCastSpell offline_env example_editor) = currentSettings example_editor"
    using t by blast
  have c: "store (handleCastSpell offline_env example_editor) = store example_editor"
    using t by blast
  have d: "filter is_request (effects (handleCastSpell offline_env example_editor)) =
      filter is_request (effects example_editor) @ [GenerateContent ?req]"
    using t by blast
  have "length (filter is_request (effects (handleCastSpell offline_env example_editor))) = 1"
    unfolding d none by simp
  then show ?thesis
    using a b c by simp
qed

section \<open>Batch import\<close>

lemma import_loop_eq:
  "import_loop rd len i files (newItems, es) =
     (newItems @ map (imported rd len)
                   (filter (\<lambda>p. readable (snd p)) (zip [i ..< i + length files] files)),
      es @ map (\<lambda>f. ConsoleError ''Failed to import file'')
             (filter (\<lambda>f. \<not> readable f) files))"
proof (induction files arbitrary: i newItems es)
  case Nil
  show ?case by simp
next
  case (Cons f files)
  have up: "[i ..< i + length (f # files)] = i # [Suc i ..< Suc i + length files]"
    by (simp add: upt_rec)
  show ?case
  proof (cases "reader_result f")
    case None
    then show ?thesis
      unfolding up using Cons.IH [of "Suc i"]
      by (simp add: fileToGenerativePart_def readable_def)
  next
    case (Some url)
    then show ?thesis
      unfolding up using Cons.IH [of "Suc i"]
      by (simp add: fileToGenerativePart_def readable_def imported_def template_string_def)
  qed
qed

lemma batch_import_collection:
  "collection (handleBatchImport rd files st) =
     map (imported rd (length (collection st)))
       (filter (\<lambda>p. readable (snd p)) (zip [0 ..< length files] files)) @ collection st"
  using import_loop_eq [of rd "length (collection st)" 0 files "[]" "[]"]
  by (simp add: handleBatchImport_def perform_def)

lemma length_filter_zip_snd:
  "length xs = length ys \<Longrightarrow> length (filter (\<lambda>p. P (snd p)) (zip xs ys)) = length (filter P ys)"
  by (induction xs ys rule: list_induct2) auto

lemma map_snd_filter_zip:
  "length xs = length ys \<Longrightarrow> map snd (filter (\<lambda>p. P (snd p)) (zip xs ys)) = filter P ys"
  by (induction xs ys rule: list_induct2) auto

lemma originalUrl_imported: "originalUrl (imported rd len p) = data_url (snd p)"
  by (cases p) (simp add: imported_def import_item_def data_url_def)

text \<open>
  Claim C4. A batch import of \<open>files\<close>, of which \<open>m\<close> are read and the others fail, puts
  exactly \<open>m\<close> new items in front of the collection as one block, before all the items
  stored so far; the new items are those of the files that were read, in the order of the
  input (each file that was read gives the item \<open>imported\<close> builds for it, whose URL is
  built from the data read), and a file that fails is skipped while the files after it
  are still imported.
\<close>

theorem batch_import:
  "let st' = handleBatchImport rd files st;
       ok = filter (\<lambda>p. readable (snd p)) (zip [0 ..< length files] files);
       m = length (filter readable files)
   in collection st' = map (imported rd (length (collection st))) ok @ collection st
    \<and> map snd ok = filter readable files
    \<and> length (collection st') = m + length (collection st)
    \<and> drop m (collection st') = collection st
    \<and> map originalUrl (take m (collection st')) = map data_url (filter readable files)"
proof -
  let ?ok = "filter (\<lambda>p. readable (snd p)) (zip [0 ..< length files] files)"
  have c: "collection (handleBatchImport rd files st) =
      map (imported rd (length (collection st))) ?ok @ collection st"
    by (rule batch_import_collection)
  have l: "length ?ok = length (filter readable files)"
    by (rule length_filter_zip_snd) simp
  have s: "map snd ?ok = filter readable files"
    by (rule map_snd_filter_zip) simp
  have u: "map originalUrl (map (imported rd (length (collection st))) ?ok) = map data_url (map snd ?ok)"
    by (simp add: originalUrl_imported)
  show ?thesis
    unfolding Let_def c using l u s by simp
qed

text \<open>
  Of the three example files the second cannot be read: two items are added, the first
  file's before the third's.
\<close>

theorem batch_import_witness:
  "length (collection (handleBatchImport example_readings example_files (initial :: int App))) = 2
   \<and> map originalUrl (collection (handleBatchImport example_readings example_files (initial :: int App))) =
       [''data:image/png;base64,QUJD'', ''data:image/jpeg;base64,REVG'']"
proof -
  have r: "filter readable example_files = [example_files ! 0, example_files ! 2]"
    by (simp add: example_files_def readable_def)
  have e: "collection (initial :: int App) = []"
    by (simp add: initial_def)
  have d: "map data_url [example_files ! 0, example_files ! 2] =
      [''data:image/png;base64,QUJD'', ''data:image/jpeg;base64,REVG'']"
    by (simp add: example_files_def data_url_def template_string_def js_index_def)
  let ?st = "handleBatchImport example_readings example_files (initial :: int App)"
  note t = batch_import [of example_readings example_files "initial :: int App", unfolded Let_def]
  have c: "length (collection ?st) =
      length (filter readable example_files) + length (collection (initial :: int App))"
    using t by blast
  have u: "map originalUrl (take (length (filter readable example_files)) (collection ?st)) =
      map data_url (filter readable example_files)"
    using t by blast
  have a: "length (collection ?st) = 2"
    using c unfolding r e by simp
  have "map originalUrl (take 2 (collection ?st)) =
      [''data:image/png;base64,QUJD'', ''data:image/jpeg;base64,REVG'']"
    using u unfolding r d by (simp add: numeral_2_eq_2)
  then show ?thesis
    using a by simp
qed

section \<open>Batch export\<close>

lemma process_perform_indep:
  "processAndDownloadImage env (perform es st) item = processAndDownloadImage env st item"
  by (simp add: processAndDownloadImage_def perform_def split: image_event.splits)

lemma perform_perform: "perform es (perform ds st) = perform (ds @ es) st"
  by (simp add: perform_def)

lemma export_loop_eq:
  "export_loop env items (st, processed) =
     (perform (concat (map (\<lambda>item. processAndDownloadImage env st item @ [Delay 500]) items)) st,
      processed + length items)"
proof (induction items arbitrary: st processed)
  case Nil
  show ?case by (simp add: perform_def)
next
  case (Cons item items)
  show ?case
    by (simp add: Cons.IH process_perform_indep perform_perform)
qed

lemma batch_export_eq:
  assumes "exportSelection st \<noteq> {||}"
  shows "handleBatchExport env st =
     st\<lparr>exportSelection := {||},
        effects := effects st
          @ concat (map (\<lambda>item. processAndDownloadImage env st item @ [Delay 500]) (itemsToExport st))
          @ [Alert (''Exported '' @ toString_nat (length (itemsToExport st)) @ '' photos.'')]\<rparr>"
proof -
  have n: "fcard (exportSelection st) \<noteq> 0"
    using assms by (simp add: fcard_0_eq)
  have l: "export_loop env (itemsToExport st) (st, 0) =
      (perform (concat (map (\<lambda>item. processAndDownloadImage env st item @ [Delay 500])
                 (itemsToExport st))) st,
       length (itemsToExport st))"
    by (simp add: export_loop_eq)
  have "handleBatchExport env st =
      (let (st', processed) = export_loop env (itemsToExport st) (st, 0)
       in perform [Alert (''Exported '' @ toString_nat processed @ '' photos.'')]
            (st'\<lparr>exportSelection := {||}\<rparr>))"
    using n by (simp add: handleBatchExport_def)
  also have "\<dots> =
      perform [Alert (''Exported '' @ toString_nat (length (itemsToExport st)) @ '' photos.'')]
        ((perform (concat (map (\<lambda>item. processAndDownloadImage env st item @ [Delay 500])
                    (itemsToExport st))) st)
           \<lparr>exportSelection := {||}\<rparr>)"
    unfolding l by simp
  finally show ?thesis
    by (simp add: perform_def)
qed

lemma no_load_no_download: "\<not> loads env item \<Longrightarrow> processAndDownloadImage env st item = []"
  by (simp add: processAndDownloadImage_def loads_def split: image_event.splits)

lemma downloads_of_trace:
  "filter is_download (concat (map (\<lambda>item. processAndDownloadImage env st item @ [Delay 500]) items))
     = concat (map (processAndDownloadImage env st) (filter (loads env) items))"
  by (induction items)
     (auto simp: processAndDownloadImage_def is_download_def loads_def split: image_event.splits)

lemma length_filter_distinct_ids:
  assumes "distinct (map f xs)" and "S |\<subseteq>| fset_of_list (map f xs)"
  shows "length (filter (\<lambda>x. f x |\<in>| S) xs) = fcard S"
proof -
  have d: "distinct (filter (\<lambda>y. y |\<in>| S) (map f xs))"
    using assms(1) by simp
  have "set (filter (\<lambda>y. y |\<in>| S) (map f xs)) = fset S"
    using assms(2) by (auto simp: fset_of_list.rep_eq less_eq_fset.rep_eq)
  then have "card (fset S) = length (filter (\<lambda>y. y |\<in>| S) (map f xs))"
    using d distinct_card by metis
  also have "\<dots> = length (filter (\<lambda>x. f x |\<in>| S) xs)"
    by (simp add: filter_map comp_def)
  finally show ?thesis
    by (simp add: fcard.rep_eq)
qed

subsection \<open>The example states\<close>

lemma example_collection:
  "collection example_state =
     [\<lparr>id_item = ''17000000000004821970'', originalUrl = ''data:image/png;base64,QUJD'',
       name = units ''Beach Day'', timestamp = 1700000000000, settings = 0, previewUrl = None\<rparr>,
      \<lparr>id_item = ''17000000000024821972'', originalUrl = ''data:image/jpeg;base64,REVG'',
       name = units ''Photo 3'', timestamp = 1700000000002, settings = 0, previewUrl = None\<rparr>]"
  by (simp add: units_def example_state_def handleBatchImport_def example_files_def fileToGenerativePart_def
        import_item_def example_readings_def initial_def perform_def js_index_def js_slice_def
        template_string_def truthy_def toString_int_def digit_def defaultSettings_ref_def)

lemma example_state_store:
  "store example_state = store (initial :: int App) \<and> fresh example_state = 1
   \<and> exportSelection example_state = {||} \<and> currentSettings example_state = 0"
  by (cases "import_loop example_readings (length (collection (initial :: int App))) 0 example_files ([], [])")
     (simp add: example_state_def handleBatchImport_def perform_def initial_def defaultSettings_ref_def)

lemma example_selected_fields:
  "collection example_selected = collection example_state
   \<and> store example_selected = store example_state
   \<and> effects example_selected = effects example_state
   \<and> exportSelection example_selected = {|''17000000000024821972'', ''17000000000004821970''|}"
  by (simp add: example_selected_def run_def toggleExportSelection_def Let_def example_collection
        example_state_store)

lemma example_items:
  "itemsToExport example_selected = collection example_state"
  by (simp add: itemsToExport_def example_selected_fields example_collection)

lemma example_downloads:
  "processAndDownloadImage example_env example_selected (collection example_state ! 0) =
     [Download (units ''bananalens-beach-day.png'') ''data:image/png;base64,QUJD'' 4 3
        ''brightness(100%) contrast(100%) saturate(100%) sepia(0%) grayscale(0%) hue-rotate(0deg) blur(0px)'']"
  "processAndDownloadImage example_env example_selected (collection example_state ! 1) = []"
proof -
  have n: "download_name example_env
      \<lparr>id_item = ''17000000000004821970'', originalUrl = ''data:image/png;base64,QUJD'',
       name = units ''Beach Day'', timestamp = 1700000000000, settings = 0, previewUrl = None\<rparr>
      = units ''bananalens-beach-day.png''"
    by (simp add: download_name_def example_env_def toLowerCase_def latin1_def units_def isSpace_def
          hyphen_def toLowerUnit_def isUpper_def)
  have f: "canvas_filter template_int (defaultSettings :: int FilterSettings) =
      ''brightness(100%) contrast(100%) saturate(100%) sepia(0%) grayscale(0%) hue-rotate(0deg) blur(0px)''"
    by code_simp
  have s: "store example_selected 0 = defaultSettings"
    by (simp add: example_selected_fields example_state_store initial_def defaultSettings_ref_def)
  show "processAndDownloadImage example_env example_selected (collection example_state ! 0) =
     [Download (units ''bananalens-beach-day.png'') ''data:image/png;base64,QUJD'' 4 3
        ''brightness(100%) contrast(100%) saturate(100%) sepia(0%) grayscale(0%) hue-rotate(0deg) blur(0px)'']"
    by (simp add: processAndDownloadImage_def example_collection example_env_def
          n [unfolded example_env_def] f s)
  show "processAndDownloadImage example_env example_selected (collection example_state ! 1) = []"
    by (simp add: processAndDownloadImage_def example_collection example_env_def)
qed

subsection \<open>The claims about batch export\<close>

text \<open>
  Claim C7. A batch export over a non-empty selection handles the selected items one
  after the other, in the order of the collection: what it does is, for each item in
  turn, the effects of \<open>processAndDownloadImage\<close> on this item followed by the pause, and
  then the alert. An item whose image fails to load contributes no download, and the
  items after it are still exported: the downloads of the batch are those of the selected
  items whose image loads, in order.
\<close>

theorem batch_export_sequential:
  assumes "exportSelection st \<noteq> {||}"
  shows "effects (handleBatchExport env st) =
           effects st
           @ concat (map (\<lambda>item. processAndDownloadImage env st item @ [Delay 500]) (itemsToExport st))
           @ [Alert (''Exported '' @ toString_nat (length (itemsToExport st)) @ '' photos.'')]
       \<and> (\<forall>item. \<not> loads env item \<longrightarrow> processAndDownloadImage env st item = [])
       \<and> filter is_download (drop (length (effects st)) (effects (handleBatchExport env st))) =
           concat (map (processAndDownloadImage env st) (filter (loads env) (itemsToExport st)))"
  using assms
  by (simp add: batch_export_eq downloads_of_trace no_load_no_download is_download_def)

text \<open>
  Both example entries are selected and the image of the second does not load: the
  first is downloaded, the second only pauses, and the alert follows.
\<close>

theorem batch_export_sequential_witness:
  "drop (length (effects example_selected)) (effects (handleBatchExport example_env example_selected)) =
     [Download (units ''bananalens-beach-day.png'') ''data:image/png;base64,QUJD'' 4 3
        ''brightness(100%) contrast(100%) saturate(100%) sepia(0%) grayscale(0%) hue-rotate(0deg) blur(0px)'',
      Delay 500, Delay 500, Alert ''Exported 2 photos.'']"
proof -
  have ne: "exportSelection example_selected \<noteq> {||}"
    by (simp add: example_selected_fields)
  have two: "collection example_state = [collection example_state ! 0, collection example_state ! 1]"
    by (simp add: example_collection)
  have len: "length (itemsToExport example_selected) = 2"
    by (simp add: example_items example_collection)
  have n: "toString_nat 2 = ''2''"
    by code_simp
  have c: "concat (map (\<lambda>item. processAndDownloadImage example_env example_selected item @ [Delay 500])
        (itemsToExport example_selected)) =
      [Download (units ''bananalens-beach-day.png'') ''data:image/png;base64,QUJD'' 4 3
        ''brightness(100%) contrast(100%) saturate(100%) sepia(0%) grayscale(0%) hue-rotate(0deg) blur(0px)'',
       Delay 500, Delay 500]"
    unfolding example_items by (subst two) (simp del: One_nat_def add: example_downloads)
  have e: "effects (handleBatchExport example_env example_selected) =
      effects example_selected
      @ concat (map (\<lambda>item. processAndDownloadImage example_env example_selected item @ [Delay 500])
          (itemsToExport example_selected))
      @ [Alert (''Exported '' @ toString_nat (length (itemsToExport example_selected)) @ '' photos.'')]"
    using batch_export_sequential [OF ne, of example_env] by blast
  show ?thesis
    unfolding e len n c by simp
qed

text \<open>
  Claim C10. When a batch export over a non-empty selection finishes, the selection is
  empty and the last thing done is the alert with the number of selected items of the
  collection, whatever the environment does to their images: an item whose image does
  not load is counted. When the ids of the collection are distinct and every selected id
  is the id of an entry, this number is the size of the selection set at the start.
\<close>

theorem batch_export_count:
  assumes "exportSelection st \<noteq> {||}"
  shows "exportSelection (handleBatchExport env st) = {||}
       \<and> last (effects (handleBatchExport env st)) =
           Alert (''Exported '' @ toString_nat (length (itemsToExport st)) @ '' photos.'')
       \<and> (distinct (map id_item (collection st)) \<and>
          exportSelection st |\<subseteq>| fset_of_list (map id_item (collection st))
          \<longrightarrow> length (itemsToExport st) = fcard (exportSelection st))"
proof -
  have "distinct (map id_item (collection st)) \<Longrightarrow>
      exportSelection st |\<subseteq>| fset_of_list (map id_item (collection st)) \<Longrightarrow>
      length (itemsToExport st) = fcard (exportSelection st)"
    unfolding itemsToExport_def by (rule length_filter_distinct_ids)
  then show ?thesis
    using assms by (auto simp: batch_export_eq)
qed

text \<open>
  In the example two entries are selected and one image does not load: the alert says
  2, which is the size of the selection.
\<close>

theorem batch_export_count_witness:
  "exportSelection (handleBatchExport example_env example_selected) = {||}
   \<and> last (effects (handleBatchExport example_env example_selected)) = Alert ''Exported 2 photos.''
   \<and> fcard (exportSelection example_selected) = 2
   \<and> \<not> loads example_env (collection example_state ! 1)"
proof -
  have ne: "exportSelection example_selected \<noteq> {||}"
    by (simp add: example_selected_fields)
  have d: "distinct (map id_item (collection example_selected))"
    by (simp add: example_selected_fields example_collection)
  have sub: "exportSelection example_selected |\<subseteq>| fset_of_list (map id_item (collection example_selected))"
    by (simp add: example_selected_fields example_collection)
  have len: "length (itemsToExport example_selected) = 2"
    by (simp add: example_items example_collection)
  have n: "toString_nat 2 = ''2''"
    by code_simp
  have nl: "\<not> loads example_env (collection example_state ! 1)"
    by (simp add: loads_def example_env_def example_collection)
  note t = batch_export_count [OF ne, of example_env]
  have a: "exportSelection (handleBatchExport example_env example_selected) = {||}"
    using t by blast
  have b: "last (effects (handleBatchExport example_env example_selected)) =
      Alert (''Exported '' @ toString_nat (length (itemsToExport example_selected)) @ '' photos.'')"
    using t by blast
  have c: "length (itemsToExport example_selected) = fcard (exportSelection example_selected)"
    using t d sub by blast
  show ?thesis
    using a b c nl unfolding len n by simp
qed

section \<open>Saved entries are never written to\<close>

lemma extends_refl: "extends st st"
  by (simp add: extends_def)

lemma extends_trans: "extends a b \<Longrightarrow> extends b c \<Longrightarrow> extends a c"
  by (auto simp: extends_def)

lemma extends_same:
  "collection st' = collection st \<Longrightarrow> store st' = store st \<Longrightarrow> fresh st' = fresh st \<Longrightarrow>
   extends st st'"
  by (simp add: extends_def)

lemma allocated_same:
  "allocated st \<Longrightarrow> collection st' = collection st \<Longrightarrow> fresh st' = fresh st \<Longrightarrow>
   currentSettings st' = currentSettings st \<or> currentSettings st' = defaultSettings_ref \<Longrightarrow>
   allocated st'"
  by (auto simp: allocated_def)

lemma cast_fields:
  "collection (handleCastSpell env st) = collection st
   \<and> (\<forall>r. r < fresh st \<longrightarrow> store (handleCastSpell env st) r = store st r)
   \<and> (currentSettings (handleCastSpell env st) = currentSettings st
         \<and> fresh (handleCastSpell env st) = fresh st
       \<or> currentSettings (handleCastSpell env st) = fresh st
         \<and> fresh (handleCastSpell env st) = Suc (fresh st))"
  by (simp add: handleCastSpell_def Let_def perform_def new_object_def
           split: option.splits prod.splits sum.splits)

lemma step_cast:
  assumes "allocated st"
  shows "allocated (handleCastSpell env st) \<and> extends st (handleCastSpell env st)"
proof -
  have c: "collection (handleCastSpell env st) = collection st"
    and s: "\<And>r. r < fresh st \<Longrightarrow> store (handleCastSpell env st) r = store st r"
    and f: "currentSettings (handleCastSpell env st) = currentSettings st
         \<and> fresh (handleCastSpell env st) = fresh st
       \<or> currentSettings (handleCastSpell env st) = fresh st
         \<and> fresh (handleCastSpell env st) = Suc (fresh st)"
    using cast_fields [of env st] by blast+
  have "extends st (handleCastSpell env st)"
    using c s f by (auto simp: extends_def)
  moreover have "allocated (handleCastSpell env st)"
    using assms c f by (auto simp: allocated_def list_all_iff less_Suc_eq)
  ultimately show ?thesis by simp
qed

lemma imported_settings: "settings (imported rd len p) = defaultSettings_ref"
  by (cases p) (simp add: imported_def import_item_def)

lemma list_all_map_const: "(\<And>x. P (f x)) \<Longrightarrow> list_all P (map f xs)"
  by (induction xs) auto

lemma import_fields:
  "\<exists>new. collection (handleBatchImport rd files st) = new @ collection st
     \<and> list_all (\<lambda>item. settings item = defaultSettings_ref) new"
proof -
  have "list_all (\<lambda>item. settings item = defaultSettings_ref)
      (map (imported rd (length (collection st)))
        (filter (\<lambda>p. readable (snd p)) (zip [0 ..< length files] files)))"
    by (rule list_all_map_const) (rule imported_settings)
  then show ?thesis
    using batch_import_collection [of rd files st] by blast
qed

lemma import_other:
  "store (handleBatchImport rd files st) = store st
   \<and> fresh (handleBatchImport rd files st) = fresh st
   \<and> currentSettings (handleBatchImport rd files st) = currentSettings st"
  by (cases "import_loop rd (length (collection st)) 0 files ([], [])")
     (simp add: handleBatchImport_def perform_def)

lemma step_import:
  assumes "allocated st"
  shows "allocated (handleBatchImport rd files st) \<and> extends st (handleBatchImport rd files st)"
proof -
  obtain new where n: "collection (handleBatchImport rd files st) = new @ collection st"
    "list_all (\<lambda>item. settings item = defaultSettings_ref) new"
    using import_fields by blast
  show ?thesis
    using assms n import_other [of rd files st]
    by (auto simp: allocated_def extends_def list_all_iff)
qed

lemma export_fields:
  "collection (handleBatchExport env st) = collection st
   \<and> store (handleBatchExport env st) = store st
   \<and> fresh (handleBatchExport env st) = fresh st
   \<and> currentSettings (handleBatchExport env st) = currentSettings st"
proof (cases "exportSelection st = {||}")
  case True
  then show ?thesis by (simp add: handleBatchExport_def)
next
  case False
  then show ?thesis by (simp add: batch_export_eq)
qed

lemma step_ok:
  assumes "allocated st"
  shows "allocated (step env st e) \<and> extends st (step env st e)"
proof (cases e)
  case CastSpell
  then show ?thesis using step_cast [OF assms] by simp
next
  case (BatchImport rd files)
  then show ?thesis using step_import [OF assms] by simp
next
  case BatchExport
  then show ?thesis
    using assms export_fields [of env st] by (simp add: extends_same allocated_same)
next
  case (SaveToCollection rd)
  then show ?thesis
    using assms
    by (auto simp: handleSaveToCollection_def Let_def perform_def allocated_def extends_def
             split: option.splits)
next
  case (ImageSelect f)
  then show ?thesis
    using assms
    by (auto simp: handleImageSelect_def perform_def allocated_def extends_def split: sum.splits)
next
  case (RefImageSelect fs)
  then show ?thesis
    using assms
    by (auto simp: handleRefImageSelect_def allocated_def extends_def split: sum.splits list.splits)
next
  case (SingleExport now)
  then show ?thesis
    using assms
    by (auto simp: handleSingleExport_def Let_def perform_def allocated_def extends_def
             split: option.splits)
next
  case (Edit i)
  then show ?thesis
    using assms
    by (auto simp: edit_item_def allocated_def extends_def list_all_iff)
next
  case (ToggleSelection i)
  then show ?thesis
    using assms
    by (auto simp: toggleExportSelection_def Let_def allocated_def extends_def)
qed (use assms in \<open>auto simp: handleResetImage_def allocated_def extends_def\<close>)

lemma run_ok:
  "allocated st \<Longrightarrow> allocated (run env st evs) \<and> extends st (run env st evs)"
proof (induction evs arbitrary: st)
  case Nil
  then show ?case by (simp add: run_def extends_refl)
next
  case (Cons e evs)
  have s: "allocated (step env st e)" "extends st (step env st e)"
    using step_ok [OF Cons.prems] by auto
  have "allocated (run env (step env st e) evs) \<and> extends (step env st e) (run env (step env st e) evs)"
    using Cons.IH [OF s(1)] .
  then show ?case
    using s(2) by (auto simp: run_def intro: extends_trans)
qed

lemma allocated_initial: "allocated initial"
  by (simp add: allocated_def initial_def defaultSettings_ref_def)

lemma extends_saved:
  assumes "allocated st" and "extends st st'"
  shows "list_all (\<lambda>saved. store st' (settings saved) = store st (settings saved)) (collection st)"
  using assms by (auto simp: allocated_def extends_def list_all_iff)

text \<open>
  Claim C9. In every state the application reaches, loading a saved entry into the editor
  (the Edit button) sets the current image and the current settings to those of the
  entry and leaves the collection and every stored object as they are. Whatever the user
  does afterwards, the entries saved before are still in the collection, behind any new
  ones, with the fields they had, and the settings object of each is unchanged. All saved
  settings lie below the allocation pointer, and a spell cast after the load leaves the
  current settings where they are or puts them in a new object at the allocation pointer:
  it never writes to the object it shares with the entry.
\<close>

theorem load_leaves_collection:
  assumes "st = run env0 initial evs0" and "i < length (collection st)"
  shows "let item = collection st ! i;
             loaded = step env st (Edit i);
             st' = run env loaded evs
         in currentImage loaded = Some (originalUrl item)
          \<and> currentSettings loaded = settings item
          \<and> collection loaded = collection st
          \<and> store loaded = store st
          \<and> (\<exists>new. collection st' = new @ collection st)
          \<and> list_all (\<lambda>saved. store st' (settings saved) = store st (settings saved)) (collection st)
          \<and> list_all (\<lambda>saved. settings saved < fresh st) (collection st)
          \<and> currentSettings (handleCastSpell env loaded) \<in> {settings item, fresh st}"
proof -
  let ?loaded = "step env st (Edit i)"
  have a: "allocated st"
    using assms(1) run_ok [OF allocated_initial] by blast
  have l: "?loaded = edit_item (collection st ! i) st"
    using assms(2) by simp
  have al: "allocated ?loaded" and el: "extends st ?loaded"
    using step_ok [OF a] by blast+
  have "extends ?loaded (run env ?loaded evs)"
    using run_ok [OF al] by blast
  then have e: "extends st (run env ?loaded evs)"
    using el extends_trans by blast
  have saved: "list_all (\<lambda>saved. store (run env ?loaded evs) (settings saved) = store st (settings saved))
      (collection st)"
    using a e by (rule extends_saved)
  have below: "list_all (\<lambda>saved. settings saved < fresh st) (collection st)"
    using a by (simp add: allocated_def)
  have new: "\<exists>new. collection (run env ?loaded evs) = new @ collection st"
    using e by (simp add: extends_def)
  have spell: "currentSettings (handleCastSpell env ?loaded) \<in> {settings (collection st ! i), fresh st}"
    using cast_fields [of env ?loaded] unfolding l by (auto simp: edit_item_def)
  show ?thesis
    unfolding Let_def using saved below new spell assms(2)
    by (simp add: edit_item_def)
qed

text \<open>
  In the example state the first entry is loaded and a spell is cast: the current
  settings have brightness 120, the settings of the saved entry still have 100.
\<close>

theorem load_leaves_collection_witness:
  "store (run example_env (step example_env example_state (Edit 0)) [CastSpell])
     (currentSettings (run example_env (step example_env example_state (Edit 0)) [CastSpell]))
     ''brightness'' = Some 120
   \<and> store (run example_env (step example_env example_state (Edit 0)) [CastSpell])
     (settings (collection example_state ! 0)) ''brightness'' = Some 100"
proof -
  let ?loaded = "step example_env example_state (Edit 0)"
  let ?img = "''data:image/png;base64,QUJD''"
  have reach: "example_state = run example_env initial [BatchImport example_readings example_files]"
    by (simp add: run_def example_state_def)
  have i: "0 < length (collection example_state)"
    by (simp add: example_collection)
  have l: "?loaded = edit_item (collection example_state ! 0) example_state"
    using i by simp
  have img: "currentImage ?loaded = Some ?img" "?img \<noteq> []"
    unfolding l by (simp_all add: edit_item_def example_collection)
  have ok: "analyzeImageAndGetSettings example_env (cleanBase64 ?img) (promptText ?loaded)
      (cleanRefBase64 (refImage ?loaded))
      = ([GenerateContent (build_request (cleanBase64 ?img) (promptText ?loaded)
            (cleanRefBase64 (refImage ?loaded)))], Inr example_result)"
    by (simp add: analyzeImageAndGetSettings_def example_env_def Let_def)
  have cur: "store (handleCastSpell example_env ?loaded) (currentSettings (handleCastSpell example_env ?loaded))
      ''brightness'' = Some 120"
    unfolding cast_spell_success [OF img ok]
    by (simp add: spread_def example_result_def)
  have before: "store example_state (settings (collection example_state ! 0)) ''brightness'' = Some (100 :: int)"
    by (simp add: example_collection example_state_store initial_def defaultSettings_ref_def
          defaultSettings_def)
  have "list_all (\<lambda>saved. store (run example_env ?loaded [CastSpell]) (settings saved) =
        store example_state (settings saved)) (collection example_state)"
    using load_leaves_collection [OF reach i, of example_env "[CastSpell]"]
    unfolding Let_def by blast
  then have "store (run example_env ?loaded [CastSpell]) (settings (collection example_state ! 0)) =
      store example_state (settings (collection example_state ! 0))"
    using i by (simp add: list_all_length)
  then show ?thesis
    using cur before by (simp add: run_def)
qed

end
